theory Spec2Isabelle
  imports Main "HOL-Library.Sublist" "HOL-Library.Word"
begin

section \<open>The Oracle client of knex: \<^verbatim>\<open>src/dialects/oracle/index.js\<close>\<close>

text \<open>
  The theory embeds the functions of \<^verbatim>\<open>Client_Oracle\<close> that translate, run and
  post-process one compiled query: \<^verbatim>\<open>prepBindings\<close>, \<^verbatim>\<open>positionBindings\<close>,
  \<^verbatim>\<open>_stream\<close>, \<^verbatim>\<open>_query\<close>, \<^verbatim>\<open>processResponse\<close> and the module-level
  \<^verbatim>\<open>isConnectionError\<close> with its table \<^verbatim>\<open>connectionErrors\<close>.
\<close>

subsection \<open>JavaScript values\<close>

text \<open>
  Plain data as the driver returns it and as the code reads it. An object is the list of
  its own enumerable properties in enumeration order; a property read takes the first
  entry of a name. Numbers are the integers: the code creates only \<open>0\<close> and \<open>1\<close>
  and copies every other number it meets.
\<close>

datatype jsval =
    Undefined
  | Null
  | Bool bool
  | Num int
  | Str string
  | Arr "jsval list"
  | Obj "(string \<times> jsval) list"

text \<open>
  A thrown or rejected value is an \<^verbatim>\<open>Error\<close> object: its constructor name and its
  \<^verbatim>\<open>message\<close>, a string.
\<close>

datatype jserror = JSError (err_name: string) (message: string)

subsection \<open>Number to string\<close>

text \<open>
  A template literal \<^verbatim>\<open>`${n}`\<close> of a non-negative integer counter is its decimal
  numeral without leading zeros.
\<close>

definition digit :: "nat \<Rightarrow> char" where
  "digit d = ''0123456789'' ! d"

fun decimal :: "nat \<Rightarrow> string" where
  "decimal n = (if n < 10 then [digit n] else decimal (n div 10) @ [digit (n mod 10)])"

declare decimal.simps [simp del]

subsection \<open>Property reads\<close>

text \<open>
  \<^verbatim>\<open>v.k\<close> and \<^verbatim>\<open>v[k]\<close> for a property name \<open>k\<close> that is not an array index:
  reading from \<^verbatim>\<open>undefined\<close> or \<^verbatim>\<open>null\<close> throws a TypeError, a missing property
  reads as \<^verbatim>\<open>undefined\<close>, arrays and strings have a \<^verbatim>\<open>length\<close>.
\<close>

definition TypeError_read :: "string \<Rightarrow> string \<Rightarrow> jserror" where
  "TypeError_read k v =
     JSError ''TypeError'' (''Cannot read property '' @ [CHR 0x27] @ k @ [CHR 0x27] @ '' of '' @ v)"

definition own :: "(string \<times> jsval) list \<Rightarrow> string \<Rightarrow> jsval" where
  "own kvs k = (case map_of kvs k of None \<Rightarrow> Undefined | Some v \<Rightarrow> v)"

fun js_prop :: "jsval \<Rightarrow> string \<Rightarrow> jserror + jsval" where
  "js_prop Undefined k = Inl (TypeError_read k ''undefined'')"
| "js_prop Null k = Inl (TypeError_read k ''null'')"
| "js_prop (Obj kvs) k = Inr (own kvs k)"
| "js_prop (Arr xs) k = Inr (if k = ''length'' then Num (int (length xs)) else Undefined)"
| "js_prop (Str s) k = Inr (if k = ''length'' then Num (int (length s)) else Undefined)"
| "js_prop (Bool b) k = Inr Undefined"
| "js_prop (Num n) k = Inr Undefined"

text \<open>\<^verbatim>\<open>v[0]\<close>: the first element of an array, \<^verbatim>\<open>undefined\<close> when there is none.\<close>

fun js_index0 :: "jsval \<Rightarrow> jserror + jsval" where
  "js_index0 Undefined = Inl (TypeError_read ''0'' ''undefined'')"
| "js_index0 Null = Inl (TypeError_read ''0'' ''null'')"
| "js_index0 (Arr xs) = Inr (case xs of [] \<Rightarrow> Undefined | x # _ \<Rightarrow> x)"
| "js_index0 (Str s) = Inr (case s of [] \<Rightarrow> Undefined | c # _ \<Rightarrow> Str [c])"
| "js_index0 (Obj kvs) = Inr (own kvs ''0'')"
| "js_index0 (Bool b) = Inr Undefined"
| "js_index0 (Num n) = Inr Undefined"

subsection \<open>Reading a slot of a response\<close>

text \<open>
  The value of a named slot of a response that is not \<^verbatim>\<open>null\<close> or \<^verbatim>\<open>undefined\<close>:
  what \<open>js_prop\<close> reads, \<^verbatim>\<open>undefined\<close> when the slot is missing.
\<close>

definition property :: "string \<Rightarrow> jsval \<Rightarrow> jsval" where
  "property k v = (case js_prop v k of Inl e \<Rightarrow> Undefined | Inr x \<Rightarrow> x)"

subsection \<open>lodash: \<^verbatim>\<open>map\<close>, \<^verbatim>\<open>values\<close>, \<^verbatim>\<open>flatten\<close>\<close>

text \<open>
  lodash is a library outside the sources. What its functions do with the values that
  a query hands them is written out; what they do elsewhere is left open, as the two
  fields of this record:
  \<^item> \<open>map_collection\<close> is \<^verbatim>\<open>map(collection, iteratee)\<close> for a collection that is not an
    array (an object, array-like or not, a string, anything else): the elements of the
    array it returns, or the error it throws;
  \<^item> \<open>property_path\<close> is \<^verbatim>\<open>_.property(path)(value)\<close> where \<open>value\<close> is not an object
    with an own property named \<open>path\<close>: the resolution of a path such as \<^verbatim>\<open>a.b\<close> or
    \<^verbatim>\<open>a[0]\<close>, the read of an index, of a length or of an inherited property.
\<close>

record lodash =
  map_collection :: "jsval \<Rightarrow> (jsval \<Rightarrow> jsval) \<Rightarrow> jserror + jsval list"
  property_path :: "string \<Rightarrow> jsval \<Rightarrow> jsval"

text \<open>
  \<^verbatim>\<open>map(collection, iteratee)\<close> applies the iteratee to the elements of an array in
  order and returns a new array; the result here is the list of its elements.
\<close>

definition lodash_map :: "lodash \<Rightarrow> jsval \<Rightarrow> (jsval \<Rightarrow> jsval) \<Rightarrow> jserror + jsval list" where
  "lodash_map L collection iteratee =
     (case collection of
        Arr xs \<Rightarrow> Inr (map iteratee xs)
      | _ \<Rightarrow> map_collection L collection iteratee)"

text \<open>
  A string iteratee is \<^verbatim>\<open>_.property(path)\<close>. An object that has an own property of
  that very name yields its value, whatever the name looks like; every other case is
  \<open>property_path\<close>. A missing iteratee is the identity.
\<close>

definition lodash_property :: "lodash \<Rightarrow> string \<Rightarrow> jsval \<Rightarrow> jsval" where
  "lodash_property L path v =
     (case v of
        Obj kvs \<Rightarrow> (case map_of kvs path of Some x \<Rightarrow> x | None \<Rightarrow> property_path L path v)
      | _ \<Rightarrow> property_path L path v)"

definition iteratee_of :: "lodash \<Rightarrow> string option \<Rightarrow> jsval \<Rightarrow> jsval" where
  "iteratee_of L p = (case p of None \<Rightarrow> (\<lambda>v. v) | Some k \<Rightarrow> lodash_property L k)"

text \<open>
  \<^verbatim>\<open>values(object)\<close>: the array of the own enumerable property values, which are the
  elements of an array and the characters of a string; empty for any other value.
\<close>

fun own_values :: "jsval \<Rightarrow> jsval list" where
  "own_values (Arr xs) = xs"
| "own_values (Obj kvs) = map snd kvs"
| "own_values (Str s) = map (\<lambda>c. Str [c]) s"
| "own_values v = []"

definition lodash_values :: "jsval \<Rightarrow> jsval" where
  "lodash_values v = Arr (own_values v)"

text \<open>
  \<^verbatim>\<open>flatten(array)\<close>, applied to the elements of the array that \<^verbatim>\<open>map\<close> returned: one
  level; an element that is an array is spliced in.
\<close>

fun spread :: "jsval \<Rightarrow> jsval list" where
  "spread (Arr xs) = xs"
| "spread v = [v]"

definition lodash_flatten :: "jsval list \<Rightarrow> jsval" where
  "lodash_flatten array = Arr (concat (map spread array))"

subsection \<open>Bindings\<close>

text \<open>
  A binding is a plain value, a \<^verbatim>\<open>Buffer\<close> (its bytes), an instance of
  \<^verbatim>\<open>ReturningHelper\<close> (its column names) or, after translation, an instance of
  the driver's \<^verbatim>\<open>OutParam\<close> (its type code). A boolean binding is \<open>Val (Bool b)\<close>.
\<close>

datatype binding =
    Val jsval
  | Buffer "8 word list"
  | ReturningHelper string
  | OutParam nat

text \<open>The \<^verbatim>\<open>oracle\<close> driver module, as far as the client reads it.\<close>

record driver =
  OCCISTRING :: nat

text \<open>
  \<^verbatim>\<open>prepBindings(bindings)\<close>. \<^verbatim>\<open>this.driver\<close> may be missing. \<^verbatim>\<open>bufferToString\<close>
  is imported from \<^verbatim>\<open>../../query/string\<close> and is a parameter here, a function from
  the bytes of a buffer to a string.
\<close>

fun prepBinding :: "driver option \<Rightarrow> (8 word list \<Rightarrow> string) \<Rightarrow> binding \<Rightarrow> binding" where
  "prepBinding drv bufferToString (ReturningHelper c) =
     (case drv of Some d \<Rightarrow> OutParam (OCCISTRING d) | None \<Rightarrow> ReturningHelper c)"
| "prepBinding drv bufferToString (Val (Bool b)) = Val (Num (if b then 1 else 0))"
| "prepBinding drv bufferToString (Buffer bs) = Val (Str (bufferToString bs))"
| "prepBinding drv bufferToString v = v"

definition prepBindings :: "driver option \<Rightarrow> (8 word list \<Rightarrow> string) \<Rightarrow> binding list \<Rightarrow> binding list" where
  "prepBindings drv bufferToString bindings = map (prepBinding drv bufferToString) bindings"

subsection \<open>\<^verbatim>\<open>positionBindings\<close>\<close>

text \<open>
  \<^verbatim>\<open>sql.replace(/\?/g, f)\<close> scans the text from the left; \<open>f\<close> increments
  \<^verbatim>\<open>questionCount\<close> and returns \<^verbatim>\<open>`:${questionCount}`\<close>. The replacement text is
  not scanned again.
\<close>

fun replace_questions :: "nat \<Rightarrow> string \<Rightarrow> string" where
  "replace_questions questionCount [] = []"
| "replace_questions questionCount (c # cs) =
     (if c = CHR ''?''
      then CHR '':'' # decimal (questionCount + 1) @ replace_questions (questionCount + 1) cs
      else c # replace_questions questionCount cs)"

definition positionBindings :: "string \<Rightarrow> string" where
  "positionBindings sql = replace_questions 0 sql"

subsection \<open>\<^verbatim>\<open>isConnectionError\<close>\<close>

definition connectionErrors :: "string list" where
  "connectionErrors =
     [''ORA-03114'', ''ORA-03113'', ''ORA-03135'', ''ORA-12514'', ''ORA-22'', ''ORA-28'',
      ''ORA-31'', ''ORA-45'', ''ORA-378'', ''ORA-602'', ''ORA-603'', ''ORA-609'',
      ''ORA-1012'', ''ORA-1041'', ''ORA-1043'', ''ORA-1089'', ''ORA-1092'', ''ORA-2396'',
      ''ORA-3122'', ''ORA-12153'', ''ORA-12537'', ''ORA-12547'', ''ORA-12570'',
      ''ORA-12583'', ''ORA-27146'', ''ORA-28511'', ''ORA-56600'', ''NJS-040'', ''NJS-024'',
      ''NJS-003'']"

text \<open>
  \<^verbatim>\<open>s.indexOf(p)\<close>: the index of the first occurrence of \<open>p\<close> in \<open>s\<close>, or \<open>-1\<close>.
\<close>

fun indexOf :: "string \<Rightarrow> string \<Rightarrow> int" where
  "indexOf [] p = (if p = [] then 0 else - 1)"
| "indexOf (c # cs) p =
     (if prefix p (c # cs) then 0
      else (let r = indexOf cs p in if r < 0 then - 1 else r + 1))"

definition isConnectionError :: "jserror \<Rightarrow> bool" where
  "isConnectionError err = list_ex (\<lambda>pre. indexOf (message err) pre = 0) connectionErrors"

subsection \<open>Connections and query descriptors\<close>

text \<open>
  A connection is the driver session promisified by \<^verbatim>\<open>acquireRawConnection\<close> plus
  the field \<^verbatim>\<open>__knex__disposed\<close>. The session is seen through its effect: \<open>calls\<close>
  is the sequence of statements sent so far. What the database answers is a
  parameter, a function of that sequence ending in the current call: \<open>Inl\<close> is a
  rejection with the driver's error, \<open>Inr\<close> the resolved response.
\<close>

type_synonym call = "string \<times> binding list"

type_synonym database = "call list \<Rightarrow> jserror + jsval"

record connection =
  calls :: "call list"
  knex_disposed :: "jserror option"

definition executeAsync ::
  "database \<Rightarrow> connection \<Rightarrow> string \<Rightarrow> binding list \<Rightarrow> (jserror + jsval) \<times> connection" where
  "executeAsync db connection statement bs =
     (let sent = calls connection @ [(statement, bs)]
      in (db sent, connection\<lparr>calls := sent\<rparr>))"

text \<open>
  The query object \<^verbatim>\<open>obj\<close>. A field that the code tests for truthiness or calls a
  method on is optional; \<^verbatim>\<open>returning\<close> is a sequence of column names, and an empty
  array is truthy. \<open>method_tag\<close> is the field \<^verbatim>\<open>method\<close>; \<open>output_fn\<close> is the field
  \<^verbatim>\<open>output\<close>, called with the runner as \<^verbatim>\<open>this\<close>.
\<close>

record descriptor =
  sql :: string
  bindings :: "binding list"
  method_tag :: string
  returning :: "string list option"
  outParams :: "binding list option"
  returningSql :: string
  pluck :: "string option"
  output_fn :: "(jsval \<Rightarrow> jsval \<Rightarrow> jserror + jsval) option"
  response :: jsval
  rowsAffected :: jsval

subsection \<open>\<^verbatim>\<open>_query\<close>\<close>

text \<open>
  How a call of \<^verbatim>\<open>_query\<close> ends: it throws before returning a promise, or the
  promise it returns is rejected or resolved.
\<close>

datatype 'a outcome = Thrown jserror | Rejected jserror | Resolved 'a

text \<open>
  \<^verbatim>\<open>`returnParam${i ? i : ''}`\<close>: index \<open>0\<close> is falsy and contributes the empty
  string.
\<close>

definition returnParam :: "nat \<Rightarrow> string" where
  "returnParam i = ''returnParam'' @ (if i \<noteq> 0 then decimal i else [])"

text \<open>A callback is applied from the left; the first throw ends the \<^verbatim>\<open>map\<close>.\<close>

fun array_map :: "('a \<Rightarrow> jserror + 'b) \<Rightarrow> 'a list \<Rightarrow> jserror + 'b list" where
  "array_map f [] = Inr []"
| "array_map f (x # xs) =
     (case f x of
        Inl e \<Rightarrow> Inl e
      | Inr y \<Rightarrow> (case array_map f xs of Inl e \<Rightarrow> Inl e | Inr ys \<Rightarrow> Inr (y # ys)))"

definition rowIds_of :: "descriptor \<Rightarrow> jsval \<Rightarrow> jserror + jsval list" where
  "rowIds_of obj resp =
     (case outParams obj of
        None \<Rightarrow> Inl (TypeError_read ''map'' ''undefined'')
      | Some ps \<Rightarrow> array_map (\<lambda>i. js_prop resp (returnParam i)) [0..<length ps])"

text \<open>The first \<^verbatim>\<open>then\<close>: the follow-up execute when \<^verbatim>\<open>returning\<close> is set.\<close>

definition fetch_returning ::
  "database \<Rightarrow> connection \<Rightarrow> descriptor \<Rightarrow> jsval \<Rightarrow> (jserror + jsval) \<times> connection" where
  "fetch_returning db connection obj resp =
     (if returning obj = None then (Inr resp, connection)
      else (case rowIds_of obj resp of
              Inl e \<Rightarrow> (Inl e, connection)
            | Inr rowIds \<Rightarrow> executeAsync db connection (returningSql obj) (map Val rowIds)))"

text \<open>
  The second \<^verbatim>\<open>then\<close>: \<^verbatim>\<open>obj.response\<close> is assigned before
  \<^verbatim>\<open>response.updateCount\<close> is read.
\<close>

definition store_response :: "descriptor \<Rightarrow> jsval \<Rightarrow> (jserror + unit) \<times> descriptor" where
  "store_response obj resp =
     (let obj1 = obj\<lparr>response := resp\<rparr>
      in (case js_prop resp ''updateCount'' of
            Inl e \<Rightarrow> (Inl e, obj1)
          | Inr n \<Rightarrow> (Inr (), obj1\<lparr>rowsAffected := n\<rparr>)))"

text \<open>The \<^verbatim>\<open>catch\<close>: the connection is marked, the error is thrown again.\<close>

definition mark_disposed :: "connection \<Rightarrow> jserror \<Rightarrow> connection" where
  "mark_disposed connection err =
     (if isConnectionError err then connection\<lparr>knex_disposed := Some err\<rparr> else connection)"

text \<open>
  \<^verbatim>\<open>_query(connection, obj)\<close> returns how the call ends together with the query
  object and the connection as it leaves them.
\<close>

definition query ::
  "database \<Rightarrow> connection \<Rightarrow> descriptor \<Rightarrow> descriptor outcome \<times> descriptor \<times> connection" where
  "query db connection obj =
     (if sql obj = [] then (Thrown (JSError ''Error'' ''The query is empty''), obj, connection)
      else
        (let (r1, c1) = executeAsync db connection (sql obj) (bindings obj);
             (r2, c2) = (case r1 of
                           Inl e \<Rightarrow> (Inl e, c1)
                         | Inr resp \<Rightarrow> fetch_returning db c1 obj resp);
             (r3, obj3) = (case r2 of
                             Inl e \<Rightarrow> (Inl e, obj)
                           | Inr resp \<Rightarrow> store_response obj resp)
         in (case r3 of
               Inl err \<Rightarrow> (Rejected err, obj3, mark_disposed c2 err)
             | Inr u \<Rightarrow> (Resolved obj3, obj3, c2))))"

subsection \<open>\<^verbatim>\<open>processResponse\<close>\<close>

definition processResponse :: "lodash \<Rightarrow> descriptor \<Rightarrow> jsval \<Rightarrow> jserror + jsval" where
  "processResponse L obj runner =
     (case output_fn obj of
        Some f \<Rightarrow> f runner (response obj)
      | None \<Rightarrow>
          if method_tag obj = ''select'' \<or> method_tag obj = ''pluck'' \<or> method_tag obj = ''first'' then
            (case (if method_tag obj = ''pluck''
                   then (case lodash_map L (response obj) (iteratee_of L (pluck obj)) of
                           Inl e \<Rightarrow> Inl e
                         | Inr ys \<Rightarrow> Inr (Arr ys))
                   else Inr (response obj)) of
               Inl e \<Rightarrow> Inl e
             | Inr resp \<Rightarrow> if method_tag obj = ''first'' then js_index0 resp else Inr resp)
          else if method_tag obj = ''insert'' \<or> method_tag obj = ''del'' \<or> method_tag obj = ''update''
                  \<or> method_tag obj = ''counter'' then
            (case returning obj of
               Some cols \<Rightarrow>
                 if length cols > 1 \<or> (cols \<noteq> [] \<and> hd cols = ''*'')
                 then Inr (response obj)
                 else (case lodash_map L (response obj) lodash_values of
                         Inl e \<Rightarrow> Inl e
                       | Inr ys \<Rightarrow> Inr (lodash_flatten ys))
             | None \<Rightarrow> Inr (rowsAffected obj))
          else Inr (response obj))"

subsection \<open>\<^verbatim>\<open>_stream\<close>\<close>










subsection \<open>The specification's reading of the rewriter and of the slot names\<close>

text \<open>
  A text is cut at every \<^verbatim>\<open>?\<close>: the part before the first one, and the part that
  follows each one up to the next.
\<close>

fun segments :: "string \<Rightarrow> string \<times> string list" where
  "segments [] = ([], [])"
| "segments (c # cs) =
     (case segments cs of (s0, segs) \<Rightarrow>
        if c = CHR ''?'' then ([], s0 # segs) else (c # s0, segs))"

text \<open>
  The slot names as the specification words them: the first slot has no numeric
  suffix, the following ones are suffixed \<open>2\<close>, \<open>3\<close>, and so on. The position \<open>i\<close>
  counts from \<open>0\<close>.
\<close>

definition spec_slot :: "nat \<Rightarrow> string" where
  "spec_slot i = ''returnParam'' @ (if i = 0 then [] else decimal (Suc i))"

text \<open>
  The values of one column across the rows of a response, as the specification words
  the result for a single returning column: the slot of that name of every row.
\<close>

definition spec_column_values :: "string \<Rightarrow> jsval \<Rightarrow> jsval" where
  "spec_column_values col resp = Arr (map (property col) (own_values resp))"

subsection \<open>Sample runs\<close>

text \<open>
  A fresh connection, the result of an insert that fills three output parameters, the
  rows of a follow-up select, and three databases: one that answers every statement,
  one that fails the first statement, one that fails the second.
\<close>

definition fresh :: connection where
  "fresh = \<lparr>calls = [], knex_disposed = None\<rparr>"

definition insert_result :: jsval where
  "insert_result =
     Obj [(''updateCount'', Num 1), (''returnParam'', Str ''AAAR''),
          (''returnParam1'', Str ''AAAS''), (''returnParam2'', Str ''AAAT'')]"

definition id_rows :: jsval where
  "id_rows = Arr [Obj [(''id'', Num 7)]]"

definition answering :: database where
  "answering sent = (if length sent = 1 then Inr insert_result else Inr id_rows)"

definition failing_first :: "jserror \<Rightarrow> database" where
  "failing_first err sent = Inl err"

definition failing_second :: "jserror \<Rightarrow> database" where
  "failing_second err sent = (if length sent = 1 then Inr insert_result else Inl err)"

definition lost_contact :: jserror where
  "lost_contact = JSError ''Error'' ''ORA-03113: end-of-file on communication channel''"

definition unique_violated :: jserror where
  "unique_violated = JSError ''Error'' ''ORA-00001: unique constraint violated''"

definition insert_one :: descriptor where
  "insert_one =
     \<lparr>sql = ''insert into t (a) values (:1) returning ROWID into :2'',
      bindings = [Val (Num 5), OutParam 3],
      method_tag = ''insert'',
      returning = Some [''id''],
      outParams = Some [ReturningHelper ''id''],
      returningSql = ''select id from t where ROWID = :1'',
      pluck = None,
      output_fn = None,
      response = Undefined,
      rowsAffected = Undefined\<rparr>"

definition insert_two :: descriptor where
  "insert_two = insert_one\<lparr>outParams := Some [ReturningHelper ''id'', ReturningHelper ''name'']\<rparr>"

definition update_plain :: descriptor where
  "update_plain =
     \<lparr>sql = ''update t set a = :1'',
      bindings = [Val (Num 5)],
      method_tag = ''update'',
      returning = None,
      outParams = None,
      returningSql = [],
      pluck = None,
      output_fn = None,
      response = Undefined,
      rowsAffected = Undefined\<rparr>"

definition name_rows :: jsval where
  "name_rows = Arr [Obj [(''name'', Str ''ann'')], Obj [(''name'', Str ''bob'')]]"



definition two_column_rows :: jsval where
  "two_column_rows =
     Arr [Obj [(''id'', Num 1), (''name'', Str ''a'')], Obj [(''id'', Num 2), (''name'', Str ''b'')]]"

definition insert_two_columns :: descriptor where
  "insert_two_columns = insert_one\<lparr>response := two_column_rows\<rparr>"

definition sample_lodash :: lodash where
  "sample_lodash = \<lparr>map_collection = (\<lambda>collection iteratee. Inr []), property_path = (\<lambda>path v. Undefined)\<rparr>"

section \<open>Properties\<close>

subsection \<open>Auxiliary facts\<close>

lemma decimal_digit: "n < 10 \<Longrightarrow> decimal n = [digit n]"
  by (simp add: decimal.simps)

lemma replace_questions_plain:
  "CHR ''?'' \<notin> set s \<Longrightarrow> replace_questions n (s @ t) = s @ replace_questions n t"
  by (induction s) auto

lemma replace_questions_segments:
  "\<forall>s \<in> set segs. CHR ''?'' \<notin> set s \<Longrightarrow>
   replace_questions n (concat (map (\<lambda>s. CHR ''?'' # s) segs)) =
   concat (map (\<lambda>(i, s). CHR '':'' # decimal i @ s) (zip [Suc n..<Suc n + length segs] segs))"
proof (induction segs arbitrary: n)
  case Nil
  then show ?case by simp
next
  case (Cons s segs)
  have up: "[Suc n..<Suc n + length (s # segs)] = Suc n # [Suc (Suc n)..<Suc (Suc n) + length segs]"
    using upt_conv_Cons [of "Suc n" "Suc n + length (s # segs)"] by simp
  from Cons.prems have s: "CHR ''?'' \<notin> set s" and rest: "\<forall>s \<in> set segs. CHR ''?'' \<notin> set s"
    by simp_all
  show ?case
    unfolding up using Cons.IH [OF rest, of "Suc n"] replace_questions_plain [OF s]
    by simp
qed

text \<open>
  Every text is its segments joined by \<^verbatim>\<open>?\<close>, and there are as many segments after
  the first as the text has \<^verbatim>\<open>?\<close>.
\<close>

lemma segments_decompose:
  "segments q = (s0, segs) \<Longrightarrow>
   q = s0 @ concat (map (\<lambda>s. CHR ''?'' # s) segs) \<and> CHR ''?'' \<notin> set s0 \<and>
   (\<forall>s \<in> set segs. CHR ''?'' \<notin> set s) \<and> length segs = count_list q (CHR ''?'')"
  by (induction q arbitrary: s0 segs) (auto split: prod.splits if_splits)

lemma prepBinding_idem: "prepBinding drv f (prepBinding drv f b) = prepBinding drv f b"
  by (cases "(drv, f, b)" rule: prepBinding.cases) (auto split: option.splits)

lemma indexOf_range: "indexOf s p = - 1 \<or> 0 \<le> indexOf s p"
  by (induction s) (auto simp: Let_def)

lemma indexOf_zero: "indexOf s p = 0 \<longleftrightarrow> prefix p s"
proof (cases s)
  case Nil
  then show ?thesis by simp
next
  case (Cons c cs)
  show ?thesis
    using indexOf_range [of cs p] by (auto simp: Cons Let_def)
qed

lemma isConnectionError_prefix:
  "isConnectionError err \<longleftrightarrow> (\<exists>p \<in> set connectionErrors. prefix p (message err))"
  by (simp add: isConnectionError_def list_ex_iff indexOf_zero)

lemma executeAsync_disposed: "knex_disposed (snd (executeAsync db c s bs)) = knex_disposed c"
  by (simp add: executeAsync_def Let_def)

lemma fetch_returning_disposed:
  "knex_disposed (snd (fetch_returning db c obj resp)) = knex_disposed c"
  by (simp add: fetch_returning_def executeAsync_disposed split: sum.splits)

lemma mark_disposed_marker:
  "knex_disposed (mark_disposed c err) = (if isConnectionError err then Some err else knex_disposed c)"
  by (simp add: mark_disposed_def)

lemma query_rejected_marker:
  assumes "query db c obj = (Rejected err, obj', c')"
  shows "knex_disposed c' = (if isConnectionError err then Some err else knex_disposed c)"
proof (cases "sql obj = []")
  case True
  with assms show ?thesis by (simp add: query_def)
next
  case False
  obtain r1 c1 where e1: "executeAsync db c (sql obj) (bindings obj) = (r1, c1)"
    by (cases "executeAsync db c (sql obj) (bindings obj)")
  obtain r2 c2 where e2:
    "(case r1 of Inl e \<Rightarrow> (Inl e, c1) | Inr resp \<Rightarrow> fetch_returning db c1 obj resp) = (r2, c2)"
    by (cases "(case r1 of Inl e \<Rightarrow> (Inl e, c1) | Inr resp \<Rightarrow> fetch_returning db c1 obj resp)")
  obtain r3 obj3 where e3:
    "(case r2 of Inl e \<Rightarrow> (Inl e, obj) | Inr resp \<Rightarrow> store_response obj resp) = (r3, obj3)"
    by (cases "(case r2 of Inl e \<Rightarrow> (Inl e, obj) | Inr resp \<Rightarrow> store_response obj resp)")
  have d1: "knex_disposed c1 = knex_disposed c"
    using executeAsync_disposed [of db c "sql obj" "bindings obj"] e1 by simp
  have d2: "knex_disposed c2 = knex_disposed c1"
  proof (cases r1)
    case (Inl e)
    with e2 show ?thesis by simp
  next
    case (Inr resp)
    with e2 fetch_returning_disposed [of db c1 obj resp] show ?thesis by simp
  qed
  from assms False e1 e2 e3 have "r3 = Inl err" and "c' = mark_disposed c2 err"
    by (auto simp: query_def Let_def split: sum.splits)
  then show ?thesis by (simp add: mark_disposed_marker d1 d2)
qed

lemma query_first_fails:
  assumes "sql obj \<noteq> []" and "db (calls c @ [(sql obj, bindings obj)]) = Inl err"
  shows "query db c obj =
     (Rejected err, obj, mark_disposed (c\<lparr>calls := calls c @ [(sql obj, bindings obj)]\<rparr>) err)"
  using assms by (simp add: query_def executeAsync_def Let_def)

lemma query_second_fails:
  assumes "sql obj \<noteq> []" and "db (calls c @ [(sql obj, bindings obj)]) = Inr resp1"
    and "returning obj \<noteq> None" and "rowIds_of obj resp1 = Inr ids"
    and "db (calls c @ [(sql obj, bindings obj), (returningSql obj, map Val ids)]) = Inl err"
  shows "query db c obj =
     (Rejected err, obj,
      mark_disposed (c\<lparr>calls := calls c @ [(sql obj, bindings obj), (returningSql obj, map Val ids)]\<rparr>) err)"
  using assms by (auto simp: query_def executeAsync_def fetch_returning_def Let_def)

lemma array_map_total:
  "resp \<noteq> Undefined \<Longrightarrow> resp \<noteq> Null \<Longrightarrow>
   array_map (\<lambda>i. js_prop resp (k i)) xs = Inr (map (\<lambda>i. property (k i) resp) xs)"
  by (induction xs) (cases resp; simp add: property_def)+

lemma rowIds_of_slots:
  "outParams obj = Some ps \<Longrightarrow> resp \<noteq> Undefined \<Longrightarrow> resp \<noteq> Null \<Longrightarrow>
   rowIds_of obj resp = Inr (map (\<lambda>i. property (returnParam i) resp) [0..<length ps])"
  by (simp add: rowIds_of_def array_map_total)

lemma map_values_rows: "lodash_map L (Arr rows) lodash_values = Inr (map lodash_values rows)"
  by (simp add: lodash_map_def)

lemma flatten_values_rows: "lodash_flatten (map lodash_values rows) = Arr (concat (map own_values rows))"
  by (simp add: lodash_flatten_def lodash_values_def comp_def)

lemma mutating_not_reading:
  "m = ''insert'' \<or> m = ''del'' \<or> m = ''update'' \<or> m = ''counter'' \<Longrightarrow>
   m \<noteq> ''select'' \<and> m \<noteq> ''pluck'' \<and> m \<noteq> ''first''"
  by auto









text \<open>Facts about the sample runs.\<close>

lemma lost_contact_fatal: "isConnectionError lost_contact"
  by (simp add: isConnectionError_def lost_contact_def connectionErrors_def)

lemma unique_violated_query_level: "\<not> isConnectionError unique_violated"
  by (simp add: isConnectionError_def unique_violated_def connectionErrors_def)

lemma insert_one_rowIds: "rowIds_of insert_one insert_result = Inr [Str ''AAAR'']"
  by (simp add: rowIds_of_def insert_one_def insert_result_def returnParam_def own_def)

subsection \<open>The emulated RETURNING round-trip\<close>

text \<open>
  Claim C1, as the code has it. A query object with \<^verbatim>\<open>returning\<close> set, whose first
  execute resolves with a result object, is followed by exactly one more execute: of
  \<^verbatim>\<open>returningSql\<close>, bound to the values read from the first response, one per entry
  of \<^verbatim>\<open>outParams\<close> and in that order. The slot at position \<open>0\<close> is
  \<^verbatim>\<open>returnParam\<close>; the slot at a later position \<open>i\<close> is \<^verbatim>\<open>returnParam\<close> followed
  by the decimal numeral of \<open>i\<close>, so the suffixes run \<open>1\<close>, \<open>2\<close>, and so on. When the second
  execute resolves, its result, and not the first one, is the \<^verbatim>\<open>response\<close> of the
  query object.
\<close>

theorem query_with_returning:
  assumes "sql obj \<noteq> []" and "returning obj = Some cols" and "outParams obj = Some ps"
    and "db (calls c @ [(sql obj, bindings obj)]) = Inr resp1"
    and "resp1 \<noteq> Undefined" and "resp1 \<noteq> Null"
  shows "calls (snd (snd (query db c obj))) =
           calls c @ [(sql obj, bindings obj),
                      (returningSql obj, map (\<lambda>i. Val (property (returnParam i) resp1)) [0..<length ps])]
       \<and> (db (calls (snd (snd (query db c obj)))) = Inr resp2 \<longrightarrow>
            response (fst (snd (query db c obj))) = resp2)
       \<and> (db (calls (snd (snd (query db c obj)))) = Inr resp2 \<and> js_prop resp2 ''updateCount'' = Inr n \<longrightarrow>
            fst (query db c obj) = Resolved (obj\<lparr>response := resp2, rowsAffected := n\<rparr>))
       \<and> returnParam 0 = ''returnParam''
       \<and> (0 < i \<longrightarrow> returnParam i = ''returnParam'' @ decimal i)"
proof -
  let ?first = "(sql obj, bindings obj)"
  let ?rowIds = "map (\<lambda>i. Val (property (returnParam i) resp1)) [0..<length ps]"
  let ?sent = "calls c @ [?first, (returningSql obj, ?rowIds)]"
  have ids: "rowIds_of obj resp1 = Inr (map (\<lambda>i. property (returnParam i) resp1) [0..<length ps])"
    using assms(3,5,6) by (rule rowIds_of_slots)
  have f: "fetch_returning db (c\<lparr>calls := calls c @ [?first]\<rparr>) obj resp1 =
     (db ?sent, c\<lparr>calls := ?sent\<rparr>)"
    using assms(2) by (simp add: fetch_returning_def ids comp_def executeAsync_def Let_def)
  have 1: "calls (snd (snd (query db c obj))) = ?sent"
    using assms(1,4) f
    by (auto simp: query_def executeAsync_def Let_def mark_disposed_def split: sum.splits prod.splits)
  have 2: "db (calls (snd (snd (query db c obj)))) = Inr resp2 \<longrightarrow>
            response (fst (snd (query db c obj))) = resp2"
    unfolding 1 using assms(1,4) f
    by (auto simp: query_def executeAsync_def Let_def store_response_def split: sum.splits prod.splits)
  have 3: "db (calls (snd (snd (query db c obj)))) = Inr resp2 \<and> js_prop resp2 ''updateCount'' = Inr n \<longrightarrow>
            fst (query db c obj) = Resolved (obj\<lparr>response := resp2, rowsAffected := n\<rparr>)"
    unfolding 1 using assms(1,4) f
    by (auto simp: query_def executeAsync_def Let_def store_response_def split: sum.splits prod.splits)
  have 4: "returnParam 0 = ''returnParam''" "0 < i \<longrightarrow> returnParam i = ''returnParam'' @ decimal i"
    by (simp_all add: returnParam_def)
  from 1 2 3 4 show ?thesis by blast
qed

text \<open>
  An insert with two output parameters on a fresh connection: the follow-up is bound
  to \<^verbatim>\<open>returnParam\<close> and \<^verbatim>\<open>returnParam1\<close>, and the rows of the select are the
  response.
\<close>

theorem query_with_returning_witness:
  "sql insert_two \<noteq> [] \<and> returning insert_two = Some [''id'']
   \<and> outParams insert_two = Some [ReturningHelper ''id'', ReturningHelper ''name'']
   \<and> answering (calls fresh @ [(sql insert_two, bindings insert_two)]) = Inr insert_result
   \<and> insert_result \<noteq> Undefined \<and> insert_result \<noteq> Null
   \<and> calls (snd (snd (query answering fresh insert_two))) =
        [(''insert into t (a) values (:1) returning ROWID into :2'', [Val (Num 5), OutParam 3]),
         (''select id from t where ROWID = :1'', [Val (Str ''AAAR''), Val (Str ''AAAS'')])]
   \<and> answering (calls (snd (snd (query answering fresh insert_two)))) = Inr id_rows
   \<and> response (fst (snd (query answering fresh insert_two))) = id_rows
   \<and> js_prop id_rows ''updateCount'' = Inr Undefined
   \<and> fst (query answering fresh insert_two) =
        Resolved (insert_two\<lparr>response := id_rows, rowsAffected := Undefined\<rparr>)
   \<and> (0::nat) < 1 \<and> returnParam 1 = ''returnParam1''"
proof -
  have h1: "sql insert_two \<noteq> []" and h2: "returning insert_two = Some [''id'']"
    and h3: "outParams insert_two = Some [ReturningHelper ''id'', ReturningHelper ''name'']"
    by (simp_all add: insert_two_def insert_one_def)
  have h4: "answering (calls fresh @ [(sql insert_two, bindings insert_two)]) = Inr insert_result"
    by (simp add: answering_def fresh_def)
  have h5: "insert_result \<noteq> Undefined" and h6: "insert_result \<noteq> Null"
    by (simp_all add: insert_result_def)
  note t = query_with_returning [where obj = insert_two and db = answering and c = fresh
      and ?resp2.0 = id_rows and n = Undefined and i = 1, OF h1 h2 h3 h4 h5 h6]
  have sent: "calls (snd (snd (query answering fresh insert_two))) =
        [(''insert into t (a) values (:1) returning ROWID into :2'', [Val (Num 5), OutParam 3]),
         (''select id from t where ROWID = :1'', [Val (Str ''AAAR''), Val (Str ''AAAS'')])]"
    using t
    by (simp add: fresh_def insert_two_def insert_one_def insert_result_def property_def own_def
        returnParam_def decimal_digit digit_def upt_rec [of 0] upt_rec [of 1] upt_rec [of 2])
  have second: "answering (calls (snd (snd (query answering fresh insert_two)))) = Inr id_rows"
    unfolding sent by (simp add: answering_def)
  have u: "js_prop id_rows ''updateCount'' = Inr Undefined"
    by (simp add: id_rows_def)
  have n: "returnParam 1 = ''returnParam1''"
    by (simp add: returnParam_def decimal_digit digit_def)
  from t second u have "response (fst (snd (query answering fresh insert_two))) = id_rows"
    and "fst (query answering fresh insert_two) =
        Resolved (insert_two\<lparr>response := id_rows, rowsAffected := Undefined\<rparr>)"
    by simp_all
  with h1 h2 h3 h4 h5 h6 sent second u n show ?thesis by simp
qed

text \<open>
  The wording of C1 with suffixes \<open>2\<close>, \<open>3\<close>, and so on fails on the same run: the
  second binding is the value of \<^verbatim>\<open>returnParam1\<close>, where that wording reads
  \<^verbatim>\<open>returnParam2\<close>.
\<close>

theorem returning_slot_suffix_counterexample:
  "snd (calls (snd (snd (query answering fresh insert_two))) ! 1) =
     [Val (Str ''AAAR''), Val (Str ''AAAS'')]
   \<and> [Val (property (spec_slot 0) insert_result), Val (property (spec_slot 1) insert_result)] =
     [Val (Str ''AAAR''), Val (Str ''AAAT'')]
   \<and> snd (calls (snd (snd (query answering fresh insert_two))) ! 1) \<noteq>
     [Val (property (spec_slot 0) insert_result), Val (property (spec_slot 1) insert_result)]"
  by code_simp

subsection \<open>Classification of errors\<close>

text \<open>
  Claim C2. An error is classified as fatal for the connection exactly when its message
  starts with an entry of \<^verbatim>\<open>connectionErrors\<close>. Whenever \<^verbatim>\<open>_query\<close> is rejected with
  an error, \<^verbatim>\<open>__knex__disposed\<close> holds that error if it is fatal and is what it was
  before if it is not. An error with which the driver rejects the first or the second
  execute is the error with which \<^verbatim>\<open>_query\<close> is rejected.
\<close>

theorem execute_error_classified:
  "(isConnectionError err \<longleftrightarrow> (\<exists>p \<in> set connectionErrors. prefix p (message err)))
   \<and> (query db c obj = (Rejected err, obj', c') \<longrightarrow>
        knex_disposed c' = (if isConnectionError err then Some err else knex_disposed c))
   \<and> (sql obj \<noteq> [] \<and> db (calls c @ [(sql obj, bindings obj)]) = Inl err \<longrightarrow>
        fst (query db c obj) = Rejected err)
   \<and> (sql obj \<noteq> [] \<and> db (calls c @ [(sql obj, bindings obj)]) = Inr resp1 \<and>
       returning obj \<noteq> None \<and> rowIds_of obj resp1 = Inr ids \<and>
       db (calls c @ [(sql obj, bindings obj), (returningSql obj, map Val ids)]) = Inl err \<longrightarrow>
        fst (query db c obj) = Rejected err)"
proof (intro conjI impI)
  show "isConnectionError err \<longleftrightarrow> (\<exists>p \<in> set connectionErrors. prefix p (message err))"
    by (rule isConnectionError_prefix)
next
  assume "query db c obj = (Rejected err, obj', c')"
  then show "knex_disposed c' = (if isConnectionError err then Some err else knex_disposed c)"
    by (rule query_rejected_marker)
next
  assume "sql obj \<noteq> [] \<and> db (calls c @ [(sql obj, bindings obj)]) = Inl err"
  then show "fst (query db c obj) = Rejected err"
    using query_first_fails [of obj db c err] by simp
next
  assume "sql obj \<noteq> [] \<and> db (calls c @ [(sql obj, bindings obj)]) = Inr resp1 \<and>
       returning obj \<noteq> None \<and> rowIds_of obj resp1 = Inr ids \<and>
       db (calls c @ [(sql obj, bindings obj), (returningSql obj, map Val ids)]) = Inl err"
  then show "fst (query db c obj) = Rejected err"
    using query_second_fails [of obj db c resp1 ids err] by simp
qed

theorem execute_error_classified_witness:
  "(\<exists>p \<in> set connectionErrors. prefix p (message lost_contact))
   \<and> query (failing_first lost_contact) fresh insert_one =
        (Rejected lost_contact, insert_one,
         \<lparr>calls = [(sql insert_one, bindings insert_one)], knex_disposed = Some lost_contact\<rparr>)
   \<and> knex_disposed (snd (snd (query (failing_first lost_contact) fresh insert_one))) = Some lost_contact
   \<and> sql insert_one \<noteq> []
   \<and> failing_first unique_violated (calls fresh @ [(sql insert_one, bindings insert_one)]) = Inl unique_violated
   \<and> fst (query (failing_first unique_violated) fresh insert_one) = Rejected unique_violated
   \<and> \<not> (\<exists>p \<in> set connectionErrors. prefix p (message unique_violated))
   \<and> query (failing_first unique_violated) fresh insert_one =
        (Rejected unique_violated, insert_one,
         \<lparr>calls = [(sql insert_one, bindings insert_one)], knex_disposed = None\<rparr>)
   \<and> knex_disposed (snd (snd (query (failing_first unique_violated) fresh insert_one))) = knex_disposed fresh
   \<and> failing_second lost_contact (calls fresh @ [(sql insert_one, bindings insert_one)]) = Inr insert_result
   \<and> returning insert_one \<noteq> None \<and> rowIds_of insert_one insert_result = Inr [Str ''AAAR'']
   \<and> failing_second lost_contact
        (calls fresh @ [(sql insert_one, bindings insert_one), (returningSql insert_one, map Val [Str ''AAAR''])])
      = Inl lost_contact
   \<and> fst (query (failing_second lost_contact) fresh insert_one) = Rejected lost_contact"
proof -
  have q2: "query (failing_first unique_violated) fresh insert_one =
        (Rejected unique_violated, insert_one,
         \<lparr>calls = [(sql insert_one, bindings insert_one)], knex_disposed = None\<rparr>)"
    using query_first_fails [of insert_one "failing_first unique_violated" fresh unique_violated]
    by (simp add: failing_first_def insert_one_def fresh_def mark_disposed_def unique_violated_query_level)
  have q: "query (failing_first lost_contact) fresh insert_one =
        (Rejected lost_contact, insert_one,
         \<lparr>calls = [(sql insert_one, bindings insert_one)], knex_disposed = Some lost_contact\<rparr>)"
    using query_first_fails [of insert_one "failing_first lost_contact" fresh lost_contact]
    by (simp add: failing_first_def insert_one_def fresh_def mark_disposed_def lost_contact_fatal)
  have h1: "sql insert_one \<noteq> []" and h2: "returning insert_one \<noteq> None"
    by (simp_all add: insert_one_def)
  have h3: "failing_first unique_violated (calls fresh @ [(sql insert_one, bindings insert_one)]) = Inl unique_violated"
    by (simp add: failing_first_def)
  have h4: "failing_second lost_contact (calls fresh @ [(sql insert_one, bindings insert_one)]) = Inr insert_result"
    by (simp add: failing_second_def fresh_def)
  have h5: "failing_second lost_contact
        (calls fresh @ [(sql insert_one, bindings insert_one), (returningSql insert_one, map Val [Str ''AAAR''])])
      = Inl lost_contact"
    by (simp add: failing_second_def fresh_def)
  note a = execute_error_classified [where err = lost_contact and db = "failing_first lost_contact"
      and c = fresh and obj = insert_one and obj' = insert_one
      and c' = "\<lparr>calls = [(sql insert_one, bindings insert_one)], knex_disposed = Some lost_contact\<rparr>"]
  note b = execute_error_classified [where err = unique_violated and db = "failing_first unique_violated"
      and c = fresh and obj = insert_one and obj' = insert_one
      and c' = "\<lparr>calls = [(sql insert_one, bindings insert_one)], knex_disposed = None\<rparr>"]
  note d = execute_error_classified [where err = lost_contact and db = "failing_second lost_contact"
      and c = fresh and obj = insert_one and ?resp1.0 = insert_result and ids = "[Str ''AAAR'']"]
  have 5: "\<not> (\<exists>p \<in> set connectionErrors. prefix p (message unique_violated))"
    using b unique_violated_query_level by blast
  have 6: "knex_disposed (snd (snd (query (failing_first unique_violated) fresh insert_one))) = knex_disposed fresh"
    using b q2 unique_violated_query_level by simp
  have 1: "\<exists>p \<in> set connectionErrors. prefix p (message lost_contact)"
    using a lost_contact_fatal by blast
  have 2: "knex_disposed (snd (snd (query (failing_first lost_contact) fresh insert_one))) = Some lost_contact"
    using a q lost_contact_fatal by simp
  have 3: "fst (query (failing_first unique_violated) fresh insert_one) = Rejected unique_violated"
    using b h1 h3 by blast
  have 4: "fst (query (failing_second lost_contact) fresh insert_one) = Rejected lost_contact"
    using d h1 h2 h4 h5 insert_one_rowIds by blast
  from 1 q 2 h1 h3 3 5 q2 6 h4 h2 insert_one_rowIds h5 4 show ?thesis by blast
qed

subsection \<open>Placeholders\<close>

text \<open>
  Claim C3. A text is a first segment followed by \<open>N\<close> segments that each start after
  a \<^verbatim>\<open>?\<close>, no segment containing a \<^verbatim>\<open>?\<close>. The rewriter replaces the \<open>i\<close>-th
  \<^verbatim>\<open>?\<close> by \<^verbatim>\<open>:i\<close> for \<open>i\<close> from \<open>1\<close> to \<open>N\<close> and copies every segment; no
  character is read as SQL. A text without \<^verbatim>\<open>?\<close> is returned as it is. Every text
  is cut by \<open>segments\<close> in this way, with as many segments after the first as it has
  \<^verbatim>\<open>?\<close>, so the rewriting holds of every text.
\<close>

theorem positionBindings_numbers_placeholders:
  "(CHR ''?'' \<notin> set s0 \<and> (\<forall>s \<in> set segs. CHR ''?'' \<notin> set s) \<longrightarrow>
      positionBindings (s0 @ concat (map (\<lambda>s. CHR ''?'' # s) segs)) =
      s0 @ concat (map (\<lambda>(i, s). CHR '':'' # decimal i @ s) (zip [1..<Suc (length segs)] segs)))
   \<and> (CHR ''?'' \<notin> set q \<longrightarrow> positionBindings q = q)
   \<and> (segments q = (t0, ts) \<longrightarrow>
        q = t0 @ concat (map (\<lambda>s. CHR ''?'' # s) ts)
        \<and> length ts = count_list q (CHR ''?'')
        \<and> positionBindings q =
            t0 @ concat (map (\<lambda>(i, s). CHR '':'' # decimal i @ s) (zip [1..<Suc (length ts)] ts)))"
proof -
  have numbered: "positionBindings (a @ concat (map (\<lambda>s. CHR ''?'' # s) ss)) =
      a @ concat (map (\<lambda>(i, s). CHR '':'' # decimal i @ s) (zip [1..<Suc (length ss)] ss))"
    if "CHR ''?'' \<notin> set a" and "\<forall>s \<in> set ss. CHR ''?'' \<notin> set s" for a ss
    using that replace_questions_plain [of a 0] replace_questions_segments [of ss 0]
    by (simp add: positionBindings_def)
  have same: "positionBindings q = q" if "CHR ''?'' \<notin> set q"
    using that replace_questions_plain [of q 0 "[]"] by (simp add: positionBindings_def)
  have every: "q = t0 @ concat (map (\<lambda>s. CHR ''?'' # s) ts)
        \<and> length ts = count_list q (CHR ''?'')
        \<and> positionBindings q =
            t0 @ concat (map (\<lambda>(i, s). CHR '':'' # decimal i @ s) (zip [1..<Suc (length ts)] ts))"
    if cut: "segments q = (t0, ts)"
  proof -
    note d = segments_decompose [OF cut]
    from d have "positionBindings (t0 @ concat (map (\<lambda>s. CHR ''?'' # s) ts)) =
        t0 @ concat (map (\<lambda>(i, s). CHR '':'' # decimal i @ s) (zip [1..<Suc (length ts)] ts))"
      by (intro numbered) simp_all
    with d show ?thesis by simp
  qed
  from numbered same every show ?thesis by blast
qed

theorem positionBindings_numbers_placeholders_witness:
  "CHR ''?'' \<notin> set ''a = '' \<and> CHR ''?'' \<notin> set '' or b = '' \<and> CHR ''?'' \<notin> set '' -- ok''
   \<and> positionBindings ''a = ? or b = ? -- ok'' = ''a = :1 or b = :2 -- ok''
   \<and> CHR ''?'' \<notin> set ''select 1 from dual''
   \<and> positionBindings ''select 1 from dual'' = ''select 1 from dual''
   \<and> segments ''a = ? or b = ? -- ok'' = (''a = '', ['' or b = '', '' -- ok''])
   \<and> count_list ''a = ? or b = ? -- ok'' (CHR ''?'') = 2"
proof -
  have cut: "segments ''a = ? or b = ? -- ok'' = (''a = '', ['' or b = '', '' -- ok''])"
    by simp
  note t = positionBindings_numbers_placeholders [where ?s0.0 = "''a = ''"
      and segs = "['' or b = '', '' -- ok'']" and q = "''select 1 from dual''"]
  note u = positionBindings_numbers_placeholders [where q = "''a = ? or b = ? -- ok''"
      and ?t0.0 = "''a = ''" and ts = "['' or b = '', '' -- ok'']"]
  have 1: "positionBindings ''a = ? or b = ? -- ok'' = ''a = :1 or b = :2 -- ok''"
    using t by (simp add: decimal_digit digit_def)
  have 2: "positionBindings ''select 1 from dual'' = ''select 1 from dual''"
    using t by simp
  have 3: "count_list ''a = ? or b = ? -- ok'' (CHR ''?'') = 2"
    using u cut by simp
  from 1 2 3 cut show ?thesis by simp
qed

subsection \<open>A query without RETURNING\<close>

text \<open>
  Claim C4. When \<^verbatim>\<open>returning\<close> is absent and the execute resolves with a response
  whose \<^verbatim>\<open>updateCount\<close> reads as \<open>n\<close>, the statement is the only call made on the
  connection, the response is stored in \<^verbatim>\<open>response\<close> and \<open>n\<close> in \<^verbatim>\<open>rowsAffected\<close>.
\<close>

theorem query_without_returning:
  assumes "sql obj \<noteq> []" and "returning obj = None"
    and "db (calls c @ [(sql obj, bindings obj)]) = Inr resp"
    and "js_prop resp ''updateCount'' = Inr n"
  shows "query db c obj =
     (Resolved (obj\<lparr>response := resp, rowsAffected := n\<rparr>),
      obj\<lparr>response := resp, rowsAffected := n\<rparr>,
      c\<lparr>calls := calls c @ [(sql obj, bindings obj)]\<rparr>)"
  using assms by (simp add: query_def executeAsync_def fetch_returning_def store_response_def Let_def)

theorem query_without_returning_witness:
  "sql update_plain \<noteq> [] \<and> returning update_plain = None
   \<and> answering (calls fresh @ [(sql update_plain, bindings update_plain)]) = Inr insert_result
   \<and> js_prop insert_result ''updateCount'' = Inr (Num 1)
   \<and> query answering fresh update_plain =
       (Resolved (update_plain\<lparr>response := insert_result, rowsAffected := Num 1\<rparr>),
        update_plain\<lparr>response := insert_result, rowsAffected := Num 1\<rparr>,
        fresh\<lparr>calls := [(''update t set a = :1'', [Val (Num 5)])]\<rparr>)"
proof -
  have h1: "sql update_plain \<noteq> []" and h2: "returning update_plain = None"
    by (simp_all add: update_plain_def)
  have h3: "answering (calls fresh @ [(sql update_plain, bindings update_plain)]) = Inr insert_result"
    by (simp add: answering_def fresh_def)
  have h4: "js_prop insert_result ''updateCount'' = Inr (Num 1)"
    by (simp add: insert_result_def own_def)
  show ?thesis
    using h1 h2 h3 h4 query_without_returning [where obj = update_plain and db = answering and c = fresh, OF h1 h2 h3 h4]
    by (simp add: fresh_def update_plain_def)
qed

subsection \<open>The empty query\<close>

text \<open>
  Claim C5. With an empty \<^verbatim>\<open>sql\<close> the call throws \<^verbatim>\<open>The query is empty\<close> at once:
  the connection and the query object are as before, and no call has been added to
  the calls made on the connection.
\<close>

theorem query_empty_sql:
  "sql obj = [] \<Longrightarrow>
   query db c obj = (Thrown (JSError ''Error'' ''The query is empty''), obj, c)
   \<and> calls (snd (snd (query db c obj))) = calls c"
  by (simp add: query_def)

theorem query_empty_sql_witness:
  "sql (update_plain\<lparr>sql := []\<rparr>) = []
   \<and> query answering fresh (update_plain\<lparr>sql := []\<rparr>) =
       (Thrown (JSError ''Error'' ''The query is empty''), update_plain\<lparr>sql := []\<rparr>, fresh)
   \<and> calls (snd (snd (query answering fresh (update_plain\<lparr>sql := []\<rparr>)))) = []"
  using query_empty_sql [of "update_plain\<lparr>sql := []\<rparr>" answering fresh]
  by (simp add: fresh_def)

subsection \<open>Streaming\<close>



subsection \<open>Boolean bindings\<close>

text \<open>
  Claim C7. \<^verbatim>\<open>prepBindings\<close> keeps the length of the list, turns \<^verbatim>\<open>true\<close> into
  \<open>1\<close> and \<^verbatim>\<open>false\<close> into \<open>0\<close> at the position where they stand, and applied to its own
  result it changes nothing.
\<close>

theorem prepBindings_booleans:
  "length (prepBindings drv f bs) = length bs
   \<and> (\<forall>i < length bs.
        (bs ! i = Val (Bool True) \<longrightarrow> prepBindings drv f bs ! i = Val (Num 1)) \<and>
        (bs ! i = Val (Bool False) \<longrightarrow> prepBindings drv f bs ! i = Val (Num 0)))
   \<and> prepBindings drv f (prepBindings drv f bs) = prepBindings drv f bs"
  by (simp add: prepBindings_def prepBinding_idem)

theorem prepBindings_booleans_witness:
  "[Val (Bool True), Buffer [1, 2], Val (Bool False), ReturningHelper ''id''] ! 0 = Val (Bool True)
   \<and> [Val (Bool True), Buffer [1, 2], Val (Bool False), ReturningHelper ''id''] ! 2 = Val (Bool False)
   \<and> prepBindings (Some \<lparr>OCCISTRING = 3\<rparr>) (\<lambda>bs. ''0102'')
        [Val (Bool True), Buffer [1, 2], Val (Bool False), ReturningHelper ''id'']
      = [Val (Num 1), Val (Str ''0102''), Val (Num 0), OutParam 3]
   \<and> prepBindings (Some \<lparr>OCCISTRING = 3\<rparr>) (\<lambda>bs. ''0102'')
        [Val (Num 1), Val (Str ''0102''), Val (Num 0), OutParam 3]
      = [Val (Num 1), Val (Str ''0102''), Val (Num 0), OutParam 3]"
  using prepBindings_booleans [of "Some \<lparr>OCCISTRING = 3\<rparr>" "\<lambda>bs. ''0102''"
      "[Val (Bool True), Buffer [1, 2], Val (Bool False), ReturningHelper ''id'']"]
  by (simp add: prepBindings_def)

subsection \<open>Normalising the response\<close>

text \<open>
  Claim C8, as the code has it. For the methods insert, del, update and counter without
  a custom output: with more than one returning column, or with the one column
  \<^verbatim>\<open>*\<close>, the response is returned as it is; with one other column and an array of
  rows as response, the property values of all rows are returned, row by row and
  flattened by one level, the column name not being read, and these are the values of
  that column when every row holds that column only; without \<^verbatim>\<open>returning\<close>,
  \<^verbatim>\<open>rowsAffected\<close> is returned.
\<close>

theorem processResponse_mutating:
  assumes "output_fn obj = None"
    and "method_tag obj = ''insert'' \<or> method_tag obj = ''del'' \<or> method_tag obj = ''update''
         \<or> method_tag obj = ''counter''"
  shows "(returning obj = Some cols \<and> (length cols > 1 \<or> cols = [''*'']) \<longrightarrow>
            processResponse L obj runner = Inr (response obj))
       \<and> (returning obj = Some [col] \<and> col \<noteq> ''*'' \<and> response obj = Arr rows \<longrightarrow>
            processResponse L obj runner = Inr (Arr (concat (map own_values rows))))
       \<and> (returning obj = Some [col] \<and> col \<noteq> ''*'' \<and> response obj = Arr (map (\<lambda>v. Obj [(col, v)]) vs) \<longrightarrow>
            processResponse L obj runner = Inr (Arr vs))
       \<and> (returning obj = None \<longrightarrow> processResponse L obj runner = Inr (rowsAffected obj))"
proof -
  note m = mutating_not_reading [OF assms(2)]
  have raw: "returning obj = Some cols \<and> (length cols > 1 \<or> cols = [''*'']) \<longrightarrow>
            processResponse L obj runner = Inr (response obj)"
    using assms m by (auto simp: processResponse_def)
  have gen: "returning obj = Some [col] \<and> col \<noteq> ''*'' \<and> response obj = Arr rows \<longrightarrow>
            processResponse L obj runner = Inr (Arr (concat (map own_values rows)))" for rows
    using assms m by (auto simp: processResponse_def map_values_rows flatten_values_rows)
  have one: "returning obj = Some [col] \<and> col \<noteq> ''*'' \<and> response obj = Arr (map (\<lambda>v. Obj [(col, v)]) vs) \<longrightarrow>
            processResponse L obj runner = Inr (Arr vs)"
    using gen [of "map (\<lambda>v. Obj [(col, v)]) vs"] by (simp add: comp_def)
  have none: "returning obj = None \<longrightarrow> processResponse L obj runner = Inr (rowsAffected obj)"
    using assms m by (auto simp: processResponse_def)
  from raw gen one none show ?thesis by blast
qed

theorem processResponse_mutating_witness:
  "output_fn insert_one = None \<and> method_tag insert_one = ''insert''
   \<and> processResponse sample_lodash (insert_one\<lparr>returning := Some [''id'', ''name''], response := name_rows\<rparr>) Null
      = Inr name_rows
   \<and> processResponse sample_lodash (insert_one\<lparr>returning := Some [''*''], response := name_rows\<rparr>) Null
      = Inr name_rows
   \<and> processResponse sample_lodash
        (insert_one\<lparr>response := Arr [Obj [(''id'', Num 1)], Obj [(''id'', Num 2)], Obj [(''id'', Num 3)]]\<rparr>) Null
      = Inr (Arr [Num 1, Num 2, Num 3])
   \<and> processResponse sample_lodash insert_two_columns Null
      = Inr (Arr [Num 1, Str ''a'', Num 2, Str ''b''])
   \<and> processResponse sample_lodash (update_plain\<lparr>rowsAffected := Num 4\<rparr>) Null = Inr (Num 4)"
proof -
  have h: "output_fn insert_one = None" "method_tag insert_one = ''insert''"
    by (simp_all add: insert_one_def)
  have 1: "processResponse sample_lodash (insert_one\<lparr>returning := Some [''id'', ''name''], response := name_rows\<rparr>) Null
      = Inr name_rows"
    using processResponse_mutating [where obj = "insert_one\<lparr>returning := Some [''id'', ''name''], response := name_rows\<rparr>"
        and cols = "[''id'', ''name'']" and runner = Null and L = sample_lodash]
    by (simp add: insert_one_def)
  have 2: "processResponse sample_lodash (insert_one\<lparr>returning := Some [''*''], response := name_rows\<rparr>) Null
      = Inr name_rows"
    using processResponse_mutating [where obj = "insert_one\<lparr>returning := Some [''*''], response := name_rows\<rparr>"
        and cols = "[''*'']" and runner = Null and L = sample_lodash]
    by (simp add: insert_one_def)
  have 3: "processResponse sample_lodash
        (insert_one\<lparr>response := Arr [Obj [(''id'', Num 1)], Obj [(''id'', Num 2)], Obj [(''id'', Num 3)]]\<rparr>) Null
      = Inr (Arr [Num 1, Num 2, Num 3])"
    using processResponse_mutating [where col = "''id''" and vs = "[Num 1, Num 2, Num 3]" and runner = Null
        and L = sample_lodash
        and obj = "insert_one\<lparr>response := Arr [Obj [(''id'', Num 1)], Obj [(''id'', Num 2)], Obj [(''id'', Num 3)]]\<rparr>"]
    by (simp add: insert_one_def)
  have 4: "processResponse sample_lodash insert_two_columns Null
      = Inr (Arr [Num 1, Str ''a'', Num 2, Str ''b''])"
    using processResponse_mutating [where col = "''id''" and runner = Null and L = sample_lodash
        and obj = insert_two_columns
        and rows = "[Obj [(''id'', Num 1), (''name'', Str ''a'')], Obj [(''id'', Num 2), (''name'', Str ''b'')]]"]
    by (simp add: insert_two_columns_def insert_one_def two_column_rows_def)
  have 5: "processResponse sample_lodash (update_plain\<lparr>rowsAffected := Num 4\<rparr>) Null = Inr (Num 4)"
    using processResponse_mutating [where obj = "update_plain\<lparr>rowsAffected := Num 4\<rparr>" and runner = Null
        and L = sample_lodash]
    by (simp add: update_plain_def)
  from h 1 2 3 4 5 show ?thesis by simp
qed

text \<open>
  The wording of C8 for a single returning column fails on rows that hold a second
  column: an insert that asked for \<^verbatim>\<open>id\<close> and whose response rows hold \<^verbatim>\<open>id\<close> and
  \<^verbatim>\<open>name\<close> is normalised to the values of both columns, not to the values of
  \<^verbatim>\<open>id\<close>.
\<close>

theorem processResponse_lone_column_counterexample:
  "output_fn insert_two_columns = None \<and> method_tag insert_two_columns = ''insert''
   \<and> returning insert_two_columns = Some [''id'']
   \<and> spec_column_values ''id'' (response insert_two_columns) = Arr [Num 1, Num 2]
   \<and> processResponse sample_lodash insert_two_columns Null = Inr (Arr [Num 1, Str ''a'', Num 2, Str ''b''])
   \<and> processResponse sample_lodash insert_two_columns Null
        \<noteq> Inr (spec_column_values ''id'' (response insert_two_columns))"
  by (simp add: insert_two_columns_def insert_one_def two_column_rows_def spec_column_values_def
      property_def own_def processResponse_def lodash_map_def lodash_values_def lodash_flatten_def)



subsection \<open>A failed execute and the query object\<close>




end
